theory Spec2Isabelle
  imports Main
begin

section \<open>The Message facade of src/message.ts\<close>

text \<open>
  \<open>Message\<close> is an abstract class over \<open>PuppetAccessory\<close>. The source gives bodies to
  the constructor, to \<open>toString\<close> and to the static \<open>find\<close> and \<open>findAll\<close>; every other
  member is declared \<open>abstract\<close> and has no body in this file.
\<close>

subsection \<open>Values\<close>

text \<open>
  The values a caller can hand over as \<open>query\<close> or as \<open>objOrId\<close>. The source types
  \<open>objOrId\<close> as \<open>Object | string\<close>, and \<open>findAll\<close> casts the class to \<open>any\<close> and passes the
  number literals 1 and 2, so numbers occur as well. Only integer literals occur in the
  source, so a number is an \<open>int\<close> here.
\<close>

datatype jsval =
    Undefined
  | Null
  | Boolean bool
  | Number int
  | String string
  | Object "(string \<times> jsval) list"

text \<open>The only field the class itself declares: the readonly constructor parameter.\<close>

record message =
  objOrId :: jsval

datatype error = TypeError | HydrationFailure | SendFailure | PreconditionViolation

text \<open>
  What an expression of the static methods evaluates to: a plain value, a Message
  instance, an array literal, or a promise object, written by the state it settles in.
\<close>

datatype rtval =
    Plain jsval
  | Inst message
  | Arr "rtval list"
  | Fulfilled rtval
  | Rejected error

subsection \<open>Collaborators\<close>

text \<open>
  Modelled from the spec: the classes \<open>Contact\<close>, \<open>Room\<close> and \<open>MediaMessage\<close> are imported
  from files that are not part of the sources. The spec calls contacts and rooms opaque
  reference types with their own identity and equality, so each is its identity; what
  \<open>say\<close> sends is plain text or a structured media payload.
\<close>

record contact =
  contact_id :: string

record room =
  room_id :: string

datatype payload = Text string | Media string

subsection \<open>The world outside the instance\<close>

text \<open>
  \<open>log.silly(prefix, text)\<close> hands one line to the logger; the transport is asked through
  requests: a lookup of what a message was constructed from, or a send of a payload
  addressed to a contact, within a room when there is one, narrowed to the contacts
  given as \<open>replyTo\<close>. Both are recorded in the order they happen.
\<close>

datatype request =
    Lookup jsval
  | Send payload contact "room option" "contact list"

record world =
  trace :: "(string \<times> string \<times> string) list"
  requests :: "request list"

definition log_silly :: "string \<Rightarrow> string \<Rightarrow> world \<Rightarrow> world" where
  "log_silly prefix line w = w\<lparr>trace := trace w @ [(''silly'', prefix, line)]\<rparr>"

subsection \<open>Constructor and toString\<close>

text \<open>
  \<^verbatim>\<open>constructor(readonly objOrId: Object | string) { super(); log.silly('Message', 'constructor()') }\<close>
  The base class \<open>PuppetAccessory\<close> is imported from another file, so what \<open>super()\<close> does
  to the world is the parameter \<open>super\<close>.
\<close>

definition Message_constructor :: "(world \<Rightarrow> world) \<Rightarrow> jsval \<Rightarrow> world \<Rightarrow> message \<times> world" where
  "Message_constructor super x w =
     (let w1 = super w;
          w2 = log_silly ''Message'' ''constructor()'' w1
      in (\<lparr>objOrId = x\<rparr>, w2))"

text \<open>\<^verbatim>\<open>public toString() { return `Message` }\<close>\<close>

definition Message_toString :: "'a message_scheme \<Rightarrow> string" where
  "Message_toString this = ''Message''"

subsection \<open>Promises, element access and async functions\<close>

text \<open>\<open>Promise.resolve(v)\<close>: a promise is returned as it is, any other value fulfils a new one.\<close>

fun Promise_resolve :: "rtval \<Rightarrow> rtval" where
  "Promise_resolve (Fulfilled v) = Fulfilled v"
| "Promise_resolve (Rejected e) = Rejected e"
| "Promise_resolve v = Fulfilled v"

text \<open>
  The element access \<open>e[0]\<close>. On \<open>undefined\<close> and \<open>null\<close> it throws a TypeError; on an array
  it is the first element, or \<open>undefined\<close> when there is none; on a string its first
  character; on an object literal the property named \<open>0\<close>. A promise object and a Message
  instance have no property named \<open>0\<close>, so the access is \<open>undefined\<close>.
\<close>

fun index0 :: "rtval \<Rightarrow> error + rtval" where
  "index0 (Plain Undefined) = Inl TypeError"
| "index0 (Plain Null) = Inl TypeError"
| "index0 (Plain (String s)) =
     Inr (case s of [] \<Rightarrow> Plain Undefined | c # _ \<Rightarrow> Plain (String [c]))"
| "index0 (Plain (Object kvs)) =
     Inr (case map_of kvs ''0'' of None \<Rightarrow> Plain Undefined | Some v \<Rightarrow> Plain v)"
| "index0 (Plain v) = Inr (Plain Undefined)"
| "index0 (Arr xs) = Inr (case xs of [] \<Rightarrow> Plain Undefined | x # _ \<Rightarrow> x)"
| "index0 (Inst m) = Inr (Plain Undefined)"
| "index0 (Fulfilled v) = Inr (Plain Undefined)"
| "index0 (Rejected e) = Inr (Plain Undefined)"

text \<open>
  What an \<open>async\<close> function hands back for the completion of its body: a throw rejects
  the promise, a returned promise is adopted, any other returned value fulfils it.
\<close>

fun async_return :: "error + rtval \<Rightarrow> rtval" where
  "async_return (Inl e) = Rejected e"
| "async_return (Inr v) = Promise_resolve v"

text \<open>The value a promise resolves to, when it does.\<close>

fun resolves_to :: "rtval \<Rightarrow> rtval option" where
  "resolves_to (Fulfilled v) = Some v"
| "resolves_to v = None"

subsection \<open>The static lookups\<close>

text \<open>
  \<^verbatim>\<open>public static async findAll(query) {
    return Promise.resolve([ new (this as any)(1), new (this as any)(2) ])
  }\<close>
  called on \<open>Message\<close> itself, so \<open>this\<close> is the class and \<open>new\<close> runs the constructor above
  (the class is abstract for the type checker only). The body runs up to its \<open>return\<close>
  before the call hands back the promise, so both constructor calls have happened then.
\<close>

definition Message_findAll :: "(world \<Rightarrow> world) \<Rightarrow> jsval \<Rightarrow> world \<Rightarrow> rtval \<times> world" where
  "Message_findAll super query w =
     (let (m1, w1) = Message_constructor super (Number 1) w;
          (m2, w2) = Message_constructor super (Number 2) w1
      in (async_return (Inr (Promise_resolve (Arr [Inst m1, Inst m2]))), w2))"

text \<open>
  \<^verbatim>\<open>public static async find(query) { return this.findAll(query)[0] }\<close>
  The element access is applied to what \<open>findAll\<close> returns, which is the promise; nothing
  awaits it first.
\<close>

definition Message_find :: "(world \<Rightarrow> world) \<Rightarrow> jsval \<Rightarrow> world \<Rightarrow> rtval \<times> world" where
  "Message_find super query w =
     (let (p, w1) = Message_findAll super query w
      in (async_return (index0 p), w1))"

section \<open>The abstract members\<close>

text \<open>
  \<open>ready\<close>, \<open>say\<close>, \<open>from\<close>, \<open>to\<close> and \<open>room\<close> are declared \<open>abstract\<close>: the source fixes their
  names, parameters and result types, and their bodies belong to the transport-specific
  subclasses, which are not part of the sources. The definitions of this section follow
  the specification and the doc comments of the declarations.
\<close>

subsection \<open>Hydration state\<close>

text \<open>
  Modelled from the spec: the lazy fields of a message, absent from the abstract class.
  Sender and recipient are contacts, the room is nullable, the content is a string and
  the three classification tags are enumeration codes (\<open>MsgType\<close> and \<open>AppMsgType\<close> are
  imported from a file that is not part of the sources).
\<close>

record fields =
  content :: string
  sender :: contact
  recipient :: "contact option"
  in_room :: "room option"
  msg_type :: nat
  msg_typeSub :: nat
  msg_typeApp :: nat

text \<open>
  Modelled from the spec: the two states of the facade. A concrete message extends the
  abstract class by its hydration state: \<open>None\<close> is Unhydrated (only the id or raw object is
  known), \<open>Some f\<close> is Hydrated with the fields \<open>f\<close>.
\<close>

record facade = message +
  hydration :: "fields option"

text \<open>
  Modelled from the spec: the transport (puppet) behind the accessory base, as far as
  the facade asks it: field hydration for what a message was constructed from (\<open>None\<close>
  when the transport cannot resolve it), and whether it acknowledges a send.
\<close>

record puppet =
  resolve :: "jsval \<Rightarrow> fields option"
  accepts :: "request \<Rightarrow> bool"

definition ask :: "request \<Rightarrow> world \<Rightarrow> world" where
  "ask r w = w\<lparr>requests := requests w @ [r]\<rparr>"

subsection \<open>Getters\<close>

text \<open>
  Modelled from the spec: the bodies of the getter overloads \<open>from()\<close>, \<open>room()\<close> and \<open>to()\<close>,
  declared abstract in the source. Before hydration a getter is a precondition violation.
  \<open>room()\<close> is the room, or null when the message is not in a room; \<open>to()\<close> is null when the
  message is room-scoped and the recipient otherwise (the declaration's comment:
  \<open>Message.to() will return null if a message is in a room\<close>).
\<close>

definition Message_from :: "facade \<Rightarrow> error + contact" where
  "Message_from this =
     (case hydration this of
        None \<Rightarrow> Inl PreconditionViolation
      | Some f \<Rightarrow> Inr (sender f))"

definition Message_room :: "facade \<Rightarrow> error + room option" where
  "Message_room this =
     (case hydration this of
        None \<Rightarrow> Inl PreconditionViolation
      | Some f \<Rightarrow> Inr (in_room f))"

definition Message_to :: "facade \<Rightarrow> error + contact option" where
  "Message_to this =
     (case hydration this of
        None \<Rightarrow> Inl PreconditionViolation
      | Some f \<Rightarrow> Inr (case in_room f of Some r \<Rightarrow> None | None \<Rightarrow> recipient f))"

text \<open>A hydrated message has a known destination when a recipient or a room is set.\<close>

definition known_destination :: "facade \<Rightarrow> bool" where
  "known_destination this =
     (case hydration this of
        None \<Rightarrow> False
      | Some f \<Rightarrow> recipient f \<noteq> None \<or> in_room f \<noteq> None)"

subsection \<open>ready and say\<close>

text \<open>
  Modelled from the spec: the body of \<open>ready()\<close>, declared abstract in the source. The result
  is what the promise settles with (\<open>Inl\<close>: rejected, \<open>Inr\<close>: resolved with the facade
  itself), the instance afterwards, and the world afterwards. On a hydrated instance it
  is a no-op. Otherwise it asks the transport once; when the transport cannot resolve
  the id the promise is rejected and the instance stays Unhydrated, else the fields are
  stored.
\<close>

definition Message_ready :: "puppet \<Rightarrow> facade \<Rightarrow> world \<Rightarrow> (error + facade) \<times> facade \<times> world" where
  "Message_ready p this w =
     (case hydration this of
        Some f \<Rightarrow> (Inr this, this, w)
      | None \<Rightarrow>
          (let w1 = ask (Lookup (objOrId this)) w
           in case resolve p (objOrId this) of
                None \<Rightarrow> (Inl HydrationFailure, this, w1)
              | Some f \<Rightarrow>
                  (let this1 = this\<lparr>hydration := Some f\<rparr>
                   in (Inr this1, this1, w1))))"

text \<open>
  Modelled from the spec: the body of \<open>say(textOrMedia, replyTo?)\<close>, declared abstract in
  the source; \<open>replyTo\<close> is the list of contacts given (none, one, or several). The reply
  is addressed to \<open>from()\<close> of this message, within \<open>room()\<close> of this message, so on an
  unhydrated instance the getters' precondition violation is the result. The transport
  is asked once; the promise resolves when it acknowledges the send and is rejected
  with a send failure when it does not.
\<close>

definition Message_say ::
  "puppet \<Rightarrow> payload \<Rightarrow> contact list \<Rightarrow> facade \<Rightarrow> world \<Rightarrow> (error + unit) \<times> facade \<times> world" where
  "Message_say p textOrMedia replyTo this w =
     (case Message_from this of
        Inl e \<Rightarrow> (Inl e, this, w)
      | Inr c \<Rightarrow>
          (case Message_room this of
             Inl e \<Rightarrow> (Inl e, this, w)
           | Inr r \<Rightarrow>
               (let req = Send textOrMedia c r replyTo;
                    w1 = ask req w
                in if accepts p req then (Inr (), this, w1)
                   else (Inl SendFailure, this, w1))))"

subsection \<open>Concrete inputs\<close>

text \<open>A fresh world, a base constructor that does nothing, and two hydrated field sets.\<close>

definition world0 :: world where
  "world0 = \<lparr>trace = [], requests = []\<rparr>"

definition super0 :: "world \<Rightarrow> world" where
  "super0 w = w"

definition direct_fields :: fields where
  "direct_fields =
     \<lparr>content = ''ding'', sender = \<lparr>contact_id = ''alice''\<rparr>,
      recipient = Some \<lparr>contact_id = ''bot''\<rparr>, in_room = None,
      msg_type = 1, msg_typeSub = 0, msg_typeApp = 0\<rparr>"

definition room_fields :: fields where
  "room_fields =
     \<lparr>content = ''ding'', sender = \<lparr>contact_id = ''alice''\<rparr>,
      recipient = Some \<lparr>contact_id = ''bot''\<rparr>, in_room = Some \<lparr>room_id = ''lobby''\<rparr>,
      msg_type = 1, msg_typeSub = 0, msg_typeApp = 0\<rparr>"

text \<open>
  A transport that knows the message \<open>abc\<close> and refuses every send, and the message
  constructed from that id, before and after hydration.
\<close>

definition puppet0 :: puppet where
  "puppet0 =
     \<lparr>resolve = (\<lambda>x. if x = String ''abc'' then Some direct_fields else None),
      accepts = (\<lambda>r. False)\<rparr>"

definition unhydrated_abc :: facade where
  "unhydrated_abc = \<lparr>objOrId = String ''abc'', hydration = None\<rparr>"

definition hydrated_abc :: facade where
  "hydrated_abc = \<lparr>objOrId = String ''abc'', hydration = Some direct_fields\<rparr>"

definition room_message :: facade where
  "room_message = \<lparr>objOrId = String ''xyz'', hydration = Some room_fields\<rparr>"

section \<open>Properties\<close>

lemma Message_findAll_value:
  "fst (Message_findAll super query w) =
     Fulfilled (Arr [Inst \<lparr>objOrId = Number 1\<rparr>, Inst \<lparr>objOrId = Number 2\<rparr>])"
  by (simp add: Message_findAll_def Message_constructor_def Let_def)

lemma Message_find_value:
  "fst (Message_find super query w) = Fulfilled (Plain Undefined)"
  by (simp add: Message_find_def Message_findAll_def Message_constructor_def Let_def)

subsection \<open>The static lookups\<close>

text \<open>
  C1. The claim: \<open>find(query)\<close> resolves to the first element of the sequence that
  \<open>findAll(query)\<close> resolves to. The code indexes the promise instead of the array it
  resolves to: at the query \<open>{}\<close> in a fresh world, \<open>findAll\<close> resolves to the two instances
  and \<open>find\<close> resolves to \<open>undefined\<close>, not to the instance constructed with 1.
\<close>

theorem C1_find_misses_first_result:
  "resolves_to (fst (Message_findAll super0 (Object []) world0)) =
     Some (Arr [Inst \<lparr>objOrId = Number 1\<rparr>, Inst \<lparr>objOrId = Number 2\<rparr>])
   \<and> resolves_to (fst (Message_find super0 (Object []) world0)) = Some (Plain Undefined)
   \<and> resolves_to (fst (Message_find super0 (Object []) world0)) \<noteq>
       Some (Inst \<lparr>objOrId = Number 1\<rparr>)"
  by (simp add: Message_find_value Message_findAll_value)

text \<open>
  C2, as stated: for some query, \<open>findAll\<close> resolves to the empty sequence. No query,
  base constructor or world does that.
\<close>

theorem C2_findAll_empty_counterexample:
  "\<not> (\<exists>super query w. resolves_to (fst (Message_findAll super query w)) = Some (Arr []))"
  by (simp add: Message_findAll_value)

text \<open>
  C2, amended. \<open>findAll(query)\<close> never resolves to an empty result sequence: for every
  query, the ordered list it resolves to is non-empty, with exactly two elements.
\<close>

theorem C2_findAll_never_empty:
  "\<exists>xs. resolves_to (fst (Message_findAll super query w)) = Some (Arr xs)
        \<and> xs \<noteq> [] \<and> length xs = 2"
  by (simp add: Message_findAll_value)

text \<open>
  C9. \<open>toString()\<close> returns the constant string \<open>Message\<close> for every instance, whatever
  it holds, and so for one constructed from a raw object as for one constructed from a
  string id.
\<close>

theorem C9_toString_constant:
  "Message_toString this = ''Message''
   \<and> Message_toString (fst (Message_constructor super (Object kvs) w)) = ''Message''
   \<and> Message_toString (fst (Message_constructor super (String s) w)) = ''Message''"
  by (simp add: Message_toString_def)

text \<open>
  C10. \<open>findAll\<close> does not depend on its query: two calls with any two queries in the
  same world give the same promise and the same world, and the promise resolves to
  the list of exactly two instances, constructed with 1 and with 2 in this order.
\<close>

theorem C10_findAll_independent_of_query:
  "Message_findAll super q1 w = Message_findAll super q2 w
   \<and> resolves_to (fst (Message_findAll super q1 w)) =
       Some (Arr [Inst (fst (Message_constructor super (Number 1) w)),
                  Inst (fst (Message_constructor super (Number 2)
                              (snd (Message_constructor super (Number 1) w))))])
   \<and> resolves_to (fst (Message_findAll super q1 w)) =
       Some (Arr [Inst \<lparr>objOrId = Number 1\<rparr>, Inst \<lparr>objOrId = Number 2\<rparr>])"
  by (simp add: Message_findAll_def Message_constructor_def Let_def)

subsection \<open>Construction\<close>

text \<open>
  C5. Constructing a Message, from a raw object or from a string id alike, issues no
  transport request: provided the base class constructor issues none, the requests
  recorded after the constructor are those recorded before it. The instance stores
  exactly what was given, and the one thing added to the world is the diagnostic line
  handed to the logger.
\<close>

theorem C5_constructor_no_transport_request:
  assumes "requests (super w) = requests w"
  shows "requests (snd (Message_constructor super x w)) = requests w
         \<and> fst (Message_constructor super x w) = \<lparr>objOrId = x\<rparr>
         \<and> snd (Message_constructor super x w) =
             (super w)\<lparr>trace := trace (super w) @ [(''silly'', ''Message'', ''constructor()'')]\<rparr>"
  using assms by (simp add: Message_constructor_def log_silly_def Let_def)

text \<open>The same at a string id and at a raw object, in a world with one earlier request.\<close>

theorem C5_constructor_witness:
  "requests (super0 (ask (Lookup (String ''m0'')) world0)) =
     requests (ask (Lookup (String ''m0'')) world0)
   \<and> Message_constructor super0 (String ''abc'') (ask (Lookup (String ''m0'')) world0) =
       (\<lparr>objOrId = String ''abc''\<rparr>,
        \<lparr>trace = [(''silly'', ''Message'', ''constructor()'')],
         requests = [Lookup (String ''m0'')]\<rparr>)
   \<and> Message_constructor super0 (Object [(''MsgId'', String ''abc'')])
         (ask (Lookup (String ''m0'')) world0) =
       (\<lparr>objOrId = Object [(''MsgId'', String ''abc'')]\<rparr>,
        \<lparr>trace = [(''silly'', ''Message'', ''constructor()'')],
         requests = [Lookup (String ''m0'')]\<rparr>)"
  using C5_constructor_no_transport_request
          [of super0 "ask (Lookup (String ''m0'')) world0" "String ''abc''"]
        C5_constructor_no_transport_request
          [of super0 "ask (Lookup (String ''m0'')) world0" "Object [(''MsgId'', String ''abc'')]"]
  by (simp add: prod_eq_iff super0_def world0_def ask_def)

subsection \<open>Destination\<close>

text \<open>
  C3. For every hydrated message with a known destination, \<open>to()\<close> and \<open>room()\<close> both
  return, exactly one of the two results is non-null, and \<open>to()\<close> is null when the
  message is room-scoped.
\<close>

theorem C3_exactly_one_destination:
  assumes "known_destination this"
  shows "\<exists>t r. Message_to this = Inr t \<and> Message_room this = Inr r
               \<and> (t \<noteq> None) \<noteq> (r \<noteq> None)
               \<and> (r \<noteq> None \<longrightarrow> t = None)"
  using assms
  by (auto simp: known_destination_def Message_to_def Message_room_def split: option.splits)

text \<open>A room-scoped message and a direct one.\<close>

theorem C3_destination_witness:
  "known_destination room_message
   \<and> Message_to room_message = Inr None
   \<and> Message_room room_message = Inr (Some \<lparr>room_id = ''lobby''\<rparr>)
   \<and> known_destination hydrated_abc
   \<and> Message_to hydrated_abc = Inr (Some \<lparr>contact_id = ''bot''\<rparr>)
   \<and> Message_room hydrated_abc = Inr None"
  using C3_exactly_one_destination [of room_message]
        C3_exactly_one_destination [of hydrated_abc]
  by (simp add: known_destination_def Message_to_def Message_room_def
        room_message_def hydrated_abc_def room_fields_def direct_fields_def)

subsection \<open>Hydration\<close>

text \<open>
  C4. \<open>ready()\<close> is idempotent: after a first \<open>ready()\<close> that resolved, the promise resolved
  with the instance itself, and a second \<open>ready()\<close> on it, whatever the transport and the
  world are by then, is a no-op: it resolves with the same instance, leaves its hydrated
  state as it is and asks the transport nothing.
\<close>

theorem C4_ready_idempotent:
  assumes "Message_ready p this w = (Inr r1, this1, w1)"
  shows "r1 = this1 \<and> Message_ready p' this1 w' = (Inr this1, this1, w')"
  using assms
  by (auto simp: Message_ready_def Let_def split: option.splits)

text \<open>The message constructed from the id \<open>abc\<close>, hydrated once and then again.\<close>

theorem C4_ready_witness:
  "Message_ready puppet0 unhydrated_abc world0 =
     (Inr hydrated_abc, hydrated_abc, ask (Lookup (String ''abc'')) world0)
   \<and> Message_ready puppet0 hydrated_abc (ask (Lookup (String ''abc'')) world0) =
     (Inr hydrated_abc, hydrated_abc, ask (Lookup (String ''abc'')) world0)"
proof -
  have first: "Message_ready puppet0 unhydrated_abc world0 =
      (Inr hydrated_abc, hydrated_abc, ask (Lookup (String ''abc'')) world0)"
    by (simp add: Message_ready_def puppet0_def unhydrated_abc_def hydrated_abc_def Let_def)
  from C4_ready_idempotent [OF first] first show ?thesis
    by simp
qed

subsection \<open>Replies\<close>

text \<open>
  C8. When \<open>say\<close> fails, the caller gets a rejected result and nothing else has changed:
  the message is as it was, nothing was logged, and the transport was asked at most
  once, so a send it refused was not tried again. And a send the transport refuses
  does fail: on a hydrated message the result is the rejection with a send failure,
  after exactly one request.
\<close>

theorem C8_say_failure:
  "(Message_say p textOrMedia replyTo this w = (Inl e, this1, w1) \<longrightarrow>
      this1 = this \<and> trace w1 = trace w
      \<and> (requests w1 = requests w
         \<or> (\<exists>req. requests w1 = requests w @ [req] \<and> \<not> accepts p req \<and> e = SendFailure)))
   \<and> (hydration this = Some f \<and> \<not> accepts p (Send textOrMedia (sender f) (in_room f) replyTo) \<longrightarrow>
      Message_say p textOrMedia replyTo this w =
        (Inl SendFailure, this, ask (Send textOrMedia (sender f) (in_room f) replyTo) w))"
  by (auto simp: Message_say_def Message_from_def Message_room_def ask_def Let_def
           split: option.splits sum.splits if_splits)

text \<open>A reply to the hydrated message \<open>abc\<close> that the transport refuses.\<close>

theorem C8_say_witness:
  "Message_say puppet0 (Text ''dong'') [] hydrated_abc world0 =
     (Inl SendFailure, hydrated_abc,
      \<lparr>trace = [], requests = [Send (Text ''dong'') \<lparr>contact_id = ''alice''\<rparr> None []]\<rparr>)
   \<and> hydration hydrated_abc = Some direct_fields
   \<and> \<not> accepts puppet0 (Send (Text ''dong'') \<lparr>contact_id = ''alice''\<rparr> None [])
   \<and> trace \<lparr>trace = [], requests = [Send (Text ''dong'') \<lparr>contact_id = ''alice''\<rparr> None []]\<rparr> =
       trace world0
   \<and> requests \<lparr>trace = [], requests = [Send (Text ''dong'') \<lparr>contact_id = ''alice''\<rparr> None []]\<rparr> =
       requests world0 @ [Send (Text ''dong'') \<lparr>contact_id = ''alice''\<rparr> None []]"
proof -
  have h: "hydration hydrated_abc = Some direct_fields"
    by (simp add: hydrated_abc_def)
  have r: "\<not> accepts puppet0 (Send (Text ''dong'') (sender direct_fields) (in_room direct_fields) [])"
    by (simp add: puppet0_def)
  from C8_say_failure
         [of puppet0 "Text ''dong''" "[]" hydrated_abc world0 SendFailure hydrated_abc
             "\<lparr>trace = [], requests = [Send (Text ''dong'') \<lparr>contact_id = ''alice''\<rparr> None []]\<rparr>"
             direct_fields]
       h r
  show ?thesis
    by (simp add: ask_def world0_def direct_fields_def puppet0_def)
qed

end
